theory Spec2Isabelle
  imports Complex_Main
begin

text \<open>
  The physics module of skotch: \<^verbatim>\<open>SimplePhysicsBody\<close> with \<^verbatim>\<open>applyForce\<close> and
  \<^verbatim>\<open>integrate\<close>, \<^verbatim>\<open>SphereCollider\<close>, \<^verbatim>\<open>attachPhysics\<close>, and \<^verbatim>\<open>stepPhysics\<close>, which
  integrates every body and then resolves every overlapping pair of sphere colliders.
  The definitions follow the TypeScript source function by function; mutation of a body,
  a position or a mesh becomes a returned value.
\<close>

section \<open>JavaScript numbers\<close>

text \<open>
  The physics module computes on the JavaScript type \<^verbatim>\<open>number\<close>. A value is a finite
  number, one of the two infinities, or NaN. Finite values are reals here and arithmetic
  on them is exact: rounding to binary64, overflow to an infinity and the sign of zero are
  left out (a zero divisor counts as \<^verbatim>\<open>+0\<close>). The results that involve an infinity, a
  zero divisor or NaN follow IEEE 754, so a division by zero is visible in the model as the
  value it produces in the program, and not as the \<open>0\<close> of \<open>x / 0\<close> in HOL.

  The properties below are stated on the operations in the order the code applies them.
  On symbolic values their proofs use the comparisons, the rules for infinities and NaN,
  and of the arithmetic on finite values only \<open>0 + a = a\<close>, \<open>a + 0 = a\<close>, \<open>0 / m = 0\<close> for
  \<open>m > 0\<close> and \<open>0 * a = 0\<close> for finite \<open>a\<close>, which hold in binary64 too. Where a property
  is evaluated at concrete numbers, these are chosen so that binary64 computes the same
  values.
\<close>

datatype number = Fin real | PInf | NInf | NaN

fun isFinite :: "number \<Rightarrow> bool" where
  "isFinite (Fin a) = True"
| "isFinite PInf = False"
| "isFinite NInf = False"
| "isFinite NaN = False"

instantiation number :: uminus
begin

fun uminus_number :: "number \<Rightarrow> number" where
  "uminus_number (Fin a) = Fin (- a)"
| "uminus_number PInf = NInf"
| "uminus_number NInf = PInf"
| "uminus_number NaN = NaN"

instance ..

end

instantiation number :: plus
begin

fun plus_number :: "number \<Rightarrow> number \<Rightarrow> number" where
  "plus_number (Fin a) (Fin b) = Fin (a + b)"
| "plus_number (Fin a) PInf = PInf"
| "plus_number (Fin a) NInf = NInf"
| "plus_number PInf (Fin b) = PInf"
| "plus_number PInf PInf = PInf"
| "plus_number PInf NInf = NaN"
| "plus_number NInf (Fin b) = NInf"
| "plus_number NInf PInf = NaN"
| "plus_number NInf NInf = NInf"
| "plus_number NaN b = NaN"
| "plus_number a NaN = NaN"

instance ..

end

instantiation number :: minus
begin

definition minus_number :: "number \<Rightarrow> number \<Rightarrow> number" where
  "minus_number a b = a + (- b)"

instance ..

end

instantiation number :: times
begin

fun times_number :: "number \<Rightarrow> number \<Rightarrow> number" where
  "times_number (Fin a) (Fin b) = Fin (a * b)"
| "times_number (Fin a) PInf = (if a = 0 then NaN else if 0 < a then PInf else NInf)"
| "times_number (Fin a) NInf = (if a = 0 then NaN else if 0 < a then NInf else PInf)"
| "times_number PInf (Fin b) = (if b = 0 then NaN else if 0 < b then PInf else NInf)"
| "times_number NInf (Fin b) = (if b = 0 then NaN else if 0 < b then NInf else PInf)"
| "times_number PInf PInf = PInf"
| "times_number PInf NInf = NInf"
| "times_number NInf PInf = NInf"
| "times_number NInf NInf = PInf"
| "times_number NaN b = NaN"
| "times_number a NaN = NaN"

instance ..

end

instantiation number :: inverse
begin

fun divide_number :: "number \<Rightarrow> number \<Rightarrow> number" where
  "divide_number (Fin a) (Fin b) =
     (if b = 0 then (if a = 0 then NaN else if 0 < a then PInf else NInf)
      else Fin (a / b))"
| "divide_number (Fin a) PInf = Fin 0"
| "divide_number (Fin a) NInf = Fin 0"
| "divide_number PInf (Fin b) = (if 0 \<le> b then PInf else NInf)"
| "divide_number NInf (Fin b) = (if 0 \<le> b then NInf else PInf)"
| "divide_number PInf PInf = NaN"
| "divide_number PInf NInf = NaN"
| "divide_number NInf PInf = NaN"
| "divide_number NInf NInf = NaN"
| "divide_number NaN b = NaN"
| "divide_number a NaN = NaN"

fun inverse_number :: "number \<Rightarrow> number" where
  "inverse_number (Fin a) = (if a = 0 then PInf else Fin (1 / a))"
| "inverse_number PInf = Fin 0"
| "inverse_number NInf = Fin 0"
| "inverse_number NaN = NaN"

instance ..

end

text \<open>
  The comparisons \<^verbatim>\<open><\<close> and \<^verbatim>\<open><=\<close>: false as soon as one side is NaN, so
  \<open>a \<le> b\<close> is not the negation of \<open>b < a\<close>. \<^verbatim>\<open>a > b\<close> is \<open>b < a\<close>.
\<close>

instantiation number :: ord
begin

fun less_number :: "number \<Rightarrow> number \<Rightarrow> bool" where
  "less_number (Fin a) (Fin b) = (a < b)"
| "less_number (Fin a) PInf = True"
| "less_number (Fin a) NInf = False"
| "less_number PInf b = False"
| "less_number NInf (Fin b) = True"
| "less_number NInf PInf = True"
| "less_number NInf NInf = False"
| "less_number NaN b = False"
| "less_number a NaN = False"

fun less_eq_number :: "number \<Rightarrow> number \<Rightarrow> bool" where
  "less_eq_number (Fin a) (Fin b) = (a \<le> b)"
| "less_eq_number (Fin a) PInf = True"
| "less_eq_number (Fin a) NInf = False"
| "less_eq_number PInf (Fin b) = False"
| "less_eq_number PInf PInf = True"
| "less_eq_number PInf NInf = False"
| "less_eq_number NInf (Fin b) = True"
| "less_eq_number NInf PInf = True"
| "less_eq_number NInf NInf = True"
| "less_eq_number NaN b = False"
| "less_eq_number a NaN = False"

instance ..

end

text \<open>\<^verbatim>\<open>a === b\<close> on numbers: NaN is not equal to itself.\<close>

fun strictEq :: "number \<Rightarrow> number \<Rightarrow> bool" where
  "strictEq NaN b = False"
| "strictEq a NaN = False"
| "strictEq a b = (a = b)"

text \<open>\<^verbatim>\<open>a || b\<close> on numbers: \<open>a\<close> unless it is falsy, and the falsy numbers are 0 and NaN.\<close>

fun truthy :: "number \<Rightarrow> bool" where
  "truthy (Fin a) = (a \<noteq> 0)"
| "truthy PInf = True"
| "truthy NInf = True"
| "truthy NaN = False"

definition orElse :: "number \<Rightarrow> number \<Rightarrow> number" where
  "orElse a b = (if truthy a then a else b)"

text \<open>\<^verbatim>\<open>Math.sqrt\<close>: NaN on a negative argument and on \<^verbatim>\<open>-Infinity\<close>.\<close>

fun sqrt_number :: "number \<Rightarrow> number" where
  "sqrt_number (Fin a) = (if a < 0 then NaN else Fin (sqrt a))"
| "sqrt_number PInf = PInf"
| "sqrt_number NInf = NaN"
| "sqrt_number NaN = NaN"

section \<open>Vectors\<close>

text \<open>
  \<^verbatim>\<open>type VecLike = { x: number; y: number; z: number }\<close>. The fields are named
  \<open>vx\<close>, \<open>vy\<close>, \<open>vz\<close> so that \<open>x\<close>, \<open>y\<close> and \<open>z\<close> stay free for variables.
\<close>

record VecLike =
  vx :: number
  vy :: number
  vz :: number

definition add :: "VecLike \<Rightarrow> VecLike \<Rightarrow> VecLike" where
  "add a b = \<lparr>vx = vx a + vx b, vy = vy a + vy b, vz = vz a + vz b\<rparr>"

definition sub :: "VecLike \<Rightarrow> VecLike \<Rightarrow> VecLike" where
  "sub a b = \<lparr>vx = vx a - vx b, vy = vy a - vy b, vz = vz a - vz b\<rparr>"

definition mulScalar :: "VecLike \<Rightarrow> number \<Rightarrow> VecLike" where
  "mulScalar a s = \<lparr>vx = vx a * s, vy = vy a * s, vz = vz a * s\<rparr>"

definition length_vec :: "VecLike \<Rightarrow> number" where
  "length_vec v = sqrt_number (vx v * vx v + vy v * vy v + vz v * vz v)"

definition zeroVec :: VecLike where
  "zeroVec = \<lparr>vx = Fin 0, vy = Fin 0, vz = Fin 0\<rparr>"

section \<open>Bodies and colliders\<close>

record SphereCollider =
  radius :: number
  offset :: VecLike

record SimplePhysicsBody =
  velocity :: VecLike
  mass :: number
  accumulatedForce :: VecLike

text \<open>\<^verbatim>\<open>new SimplePhysicsBody(mass)\<close>: zero velocity and no pending force.\<close>

definition newBody :: "number \<Rightarrow> SimplePhysicsBody" where
  "newBody m = \<lparr>velocity = zeroVec, mass = m, accumulatedForce = zeroVec\<rparr>"

definition applyForce :: "SimplePhysicsBody \<Rightarrow> VecLike \<Rightarrow> SimplePhysicsBody" where
  "applyForce b force = b\<lparr>accumulatedForce := add (accumulatedForce b) force\<rparr>"

text \<open>
  \<^verbatim>\<open>integrate(position, dt)\<close> mutates the body and the position object it is given;
  the model returns both.
\<close>

definition integrate :: "SimplePhysicsBody \<Rightarrow> VecLike \<Rightarrow> number \<Rightarrow> SimplePhysicsBody \<times> VecLike" where
  "integrate b pos dt =
     (if dt \<le> Fin 0 then (b, pos)
      else
        let ax = vx (accumulatedForce b) / mass b;
            ay = vy (accumulatedForce b) / mass b;
            az = vz (accumulatedForce b) / mass b;
            v = \<lparr>vx = vx (velocity b) + ax * dt,
                 vy = vy (velocity b) + ay * dt,
                 vz = vz (velocity b) + az * dt\<rparr>;
            p = \<lparr>vx = vx pos + vx v * dt,
                 vy = vy pos + vy v * dt,
                 vz = vz pos + vz v * dt\<rparr>
        in (b\<lparr>velocity := v, accumulatedForce := zeroVec\<rparr>, p))"

section \<open>Meshes\<close>

text \<open>
  What \<^verbatim>\<open>stepPhysics\<close> reads of a mesh: \<^verbatim>\<open>transform.position\<close> and the pair
  \<^verbatim>\<open>userData.physics = { body, collider }\<close> that \<^verbatim>\<open>attachPhysics\<close> stores. A mesh
  with no \<^verbatim>\<open>userData\<close> or no \<^verbatim>\<open>physics\<close> is skipped by both loops, as a mesh with
  neither a body nor a collider is. The meshes of a list are distinct objects and each owns
  its position, its body and its collider, so the in-place updates of the program are
  updates of the list's elements.
\<close>

record Mesh =
  position :: VecLike
  body :: "SimplePhysicsBody option"
  collider :: "SphereCollider option"

definition attachPhysics :: "Mesh \<Rightarrow> SimplePhysicsBody \<Rightarrow> SphereCollider option \<Rightarrow> Mesh" where
  "attachPhysics mesh b c = mesh\<lparr>body := Some b, collider := c\<rparr>"

section \<open>The step\<close>

subsection \<open>First loop: integration\<close>

definition integrateMesh :: "number \<Rightarrow> Mesh \<Rightarrow> Mesh" where
  "integrateMesh dt m =
     (case body m of
        None \<Rightarrow> m
      | Some b \<Rightarrow>
          (case integrate b (position m) dt of
             (b', p') \<Rightarrow> m\<lparr>position := p', body := Some b'\<rparr>))"

definition integratePhase :: "Mesh list \<Rightarrow> number \<Rightarrow> Mesh list" where
  "integratePhase meshes dt = map (integrateMesh dt) meshes"

subsection \<open>Second loop: one pair\<close>

text \<open>
  The local constants of the inner loop's body (lines 94 to 109), for a mesh \<open>A\<close> with
  collider \<open>ca\<close> and a mesh \<open>B\<close> with collider \<open>cb\<close>. \<open>dist_of\<close> is \<^verbatim>\<open>dist\<close>: it is
  computed once, from the difference of the centers, before \<^verbatim>\<open>delta\<close> is overwritten.
\<close>

definition restitution :: number where
  "restitution = Fin 0.5"

definition worldCenter :: "Mesh \<Rightarrow> SphereCollider \<Rightarrow> VecLike" where
  "worldCenter m c = add (position m) (offset c)"

definition dist_of :: "Mesh \<Rightarrow> SphereCollider \<Rightarrow> Mesh \<Rightarrow> SphereCollider \<Rightarrow> number" where
  "dist_of A ca B cb = length_vec (sub (worldCenter B cb) (worldCenter A ca))"

definition minDist :: "SphereCollider \<Rightarrow> SphereCollider \<Rightarrow> number" where
  "minDist ca cb = radius ca + radius cb"

definition delta :: "Mesh \<Rightarrow> SphereCollider \<Rightarrow> Mesh \<Rightarrow> SphereCollider \<Rightarrow> VecLike" where
  "delta A ca B cb =
     (if strictEq (dist_of A ca B cb) (Fin 0)
      then \<lparr>vx = Fin 0.001, vy = Fin 0.001, vz = Fin 0.001\<rparr>
      else sub (worldCenter B cb) (worldCenter A ca))"

definition penetration :: "Mesh \<Rightarrow> SphereCollider \<Rightarrow> Mesh \<Rightarrow> SphereCollider \<Rightarrow> number" where
  "penetration A ca B cb = minDist ca cb - dist_of A ca B cb"

definition normal :: "Mesh \<Rightarrow> SphereCollider \<Rightarrow> Mesh \<Rightarrow> SphereCollider \<Rightarrow> VecLike" where
  "normal A ca B cb =
     mulScalar (delta A ca B cb) (Fin 1 / orElse (dist_of A ca B cb) (Fin 1))"

definition correction :: "Mesh \<Rightarrow> SphereCollider \<Rightarrow> Mesh \<Rightarrow> SphereCollider \<Rightarrow> VecLike" where
  "correction A ca B cb =
     mulScalar (normal A ca B cb) (penetration A ca B cb * Fin 0.5)"

text \<open>Lines 118 to 139: the velocities of two bodies in contact along the normal \<open>n\<close>.\<close>

definition relAlongNormal :: "SimplePhysicsBody \<Rightarrow> SimplePhysicsBody \<Rightarrow> VecLike \<Rightarrow> number" where
  "relAlongNormal ba bb n =
     (let rel = sub (velocity bb) (velocity ba)
      in vx rel * vx n + vy rel * vy n + vz rel * vz n)"

definition invMass :: "SimplePhysicsBody \<Rightarrow> number" where
  "invMass b = (if Fin 0 < mass b then Fin 1 / mass b else Fin 0)"

definition resolveVelocity ::
  "SimplePhysicsBody \<Rightarrow> SimplePhysicsBody \<Rightarrow> VecLike \<Rightarrow> SimplePhysicsBody \<times> SimplePhysicsBody" where
  "resolveVelocity ba bb n =
     (if Fin 0 < relAlongNormal ba bb n then (ba, bb)
      else
        let invMassA = invMass ba;
            invMassB = invMass bb;
            j = ((- (Fin 1 + restitution)) * relAlongNormal ba bb n) / (invMassA + invMassB);
            impulse = mulScalar n j
        in (ba\<lparr>velocity := sub (velocity ba) (mulScalar impulse invMassA)\<rparr>,
            bb\<lparr>velocity := add (velocity bb) (mulScalar impulse invMassB)\<rparr>))"

text \<open>
  Lines 90 to 141, the body of the inner loop for the meshes \<open>A = meshes[i]\<close> and
  \<open>B = meshes[j]\<close>. The outer loop has checked the collider of \<open>A\<close> already.
\<close>

definition resolvePair :: "Mesh \<Rightarrow> Mesh \<Rightarrow> Mesh \<times> Mesh" where
  "resolvePair A B =
     (case collider A of
        None \<Rightarrow> (A, B)
      | Some ca \<Rightarrow>
          (case collider B of
             None \<Rightarrow> (A, B)
           | Some cb \<Rightarrow>
               if dist_of A ca B cb < minDist ca cb then
                 let A1 = A\<lparr>position := add (position A) (mulScalar (correction A ca B cb) (Fin (- 1)))\<rparr>;
                     B1 = B\<lparr>position := add (position B) (correction A ca B cb)\<rparr>
                 in (case body A of
                       None \<Rightarrow> (A1, B1)
                     | Some ba \<Rightarrow>
                         (case body B of
                            None \<Rightarrow> (A1, B1)
                          | Some bb \<Rightarrow>
                              (case resolveVelocity ba bb (normal A ca B cb) of
                                 (ba', bb') \<Rightarrow> (A1\<lparr>body := Some ba'\<rparr>, B1\<lparr>body := Some bb'\<rparr>))))
               else (A, B)))"

subsection \<open>Second loop: all pairs\<close>

text \<open>
  The loops run over indices with \<open>i < j < meshes.length\<close>, so both reads of
  \<open>resolveAt\<close> are in range, and the list keeps its length.
\<close>

definition resolveAt :: "nat \<Rightarrow> nat \<Rightarrow> Mesh list \<Rightarrow> Mesh list" where
  "resolveAt i j ms =
     (case resolvePair (ms ! i) (ms ! j) of (A', B') \<Rightarrow> (ms[i := A'])[j := B'])"

lemma length_resolveAt: "length (resolveAt i j ms) = length ms"
  by (simp add: resolveAt_def split: prod.splits)

function innerLoop :: "nat \<Rightarrow> nat \<Rightarrow> Mesh list \<Rightarrow> Mesh list" where
  "innerLoop i j ms =
     (if j < length ms then innerLoop i (j + 1) (resolveAt i j ms) else ms)"
  by pat_completeness auto
termination
  by (relation "measure (\<lambda>(i, j, ms). length ms - j)")
     (simp_all add: length_resolveAt)

declare innerLoop.simps [simp del]

lemma length_innerLoop: "length (innerLoop i j ms) = length ms"
proof (induction i j ms rule: innerLoop.induct)
  case (1 i j ms)
  show ?case
  proof (cases "j < length ms")
    case True
    then show ?thesis
      using "1.IH" [OF True] by (subst innerLoop.simps) (simp add: length_resolveAt)
  next
    case False
    then show ?thesis by (subst innerLoop.simps) simp
  qed
qed

function outerLoop :: "nat \<Rightarrow> Mesh list \<Rightarrow> Mesh list" where
  "outerLoop i ms =
     (if i < length ms then
        outerLoop (i + 1)
          (case collider (ms ! i) of
             None \<Rightarrow> ms
           | Some ca \<Rightarrow> innerLoop i (i + 1) ms)
      else ms)"
  by pat_completeness auto
termination
  by (relation "measure (\<lambda>(i, ms). length ms - i)")
     (auto simp: length_innerLoop split: option.splits)

declare outerLoop.simps [simp del]

definition collisionPhase :: "Mesh list \<Rightarrow> Mesh list" where
  "collisionPhase meshes = outerLoop 0 meshes"

definition stepPhysics :: "Mesh list \<Rightarrow> number \<Rightarrow> Mesh list" where
  "stepPhysics meshes dt = collisionPhase (integratePhase meshes dt)"

section \<open>Notions used by the properties\<close>

text \<open>A vector of three finite numbers.\<close>

definition vec :: "real \<Rightarrow> real \<Rightarrow> real \<Rightarrow> VecLike" where
  "vec a b c = \<lparr>vx = Fin a, vy = Fin b, vz = Fin c\<rparr>"

text \<open>
  \<open>ball p v m r\<close>: a mesh at \<open>p\<close> with a fresh body of mass \<open>m\<close> whose velocity has been
  set to \<open>v\<close>, and a sphere collider of radius \<open>r\<close> with the default offset.
\<close>

definition ball :: "VecLike \<Rightarrow> VecLike \<Rightarrow> number \<Rightarrow> number \<Rightarrow> Mesh" where
  "ball p v m r =
     attachPhysics \<lparr>position = p, body = None, collider = None\<rparr>
       ((newBody m)\<lparr>velocity := v\<rparr>)
       (Some \<lparr>radius = r, offset = zeroVec\<rparr>)"


definition bodyMass :: "Mesh \<Rightarrow> number option" where
  "bodyMass m = map_option mass (body m)"

section \<open>Facts about numbers and vectors\<close>

lemma zero_plus: "Fin 0 + a = a"
  by (cases a) simp_all

lemma plus_zero: "a + Fin 0 = a"
  by (cases a) simp_all

lemma plus_NaN: "a + NaN = NaN"
  by (cases a) simp_all

lemma minus_NaN: "a - NaN = NaN"
  by (cases a) (simp_all add: minus_number_def)

lemma number_le_not_less: "(a :: number) \<le> b \<Longrightarrow> \<not> b < a"
  by (cases a; cases b) simp_all

lemma pos_not_le_zero: "Fin 0 < (a :: number) \<Longrightarrow> \<not> a \<le> Fin 0"
  by (cases a) simp_all

lemma less_not_NaN: "(a :: number) < b \<Longrightarrow> a \<noteq> NaN"
  by (cases a) simp_all

lemma strictEq_zero: "strictEq a (Fin 0) = (a = Fin 0)"
  by (cases a) auto

lemma truthy_iff: "truthy a = (a \<noteq> Fin 0 \<and> a \<noteq> NaN)"
  by (cases a) auto

lemma zero_div_pos: "Fin 0 < m \<Longrightarrow> Fin 0 / m = Fin 0"
  by (cases m) simp_all

lemma zero_times_finite: "isFinite a \<Longrightarrow> Fin 0 * a = Fin 0"
  by (cases a) simp_all

lemma div_zero_not_finite: "\<not> isFinite (a / Fin 0)"
  by (cases a) simp_all

lemma times_not_finite: "\<not> isFinite j \<Longrightarrow> \<not> isFinite (a * j)"
  by (cases a; cases j) simp_all

lemma not_finite_times_zero: "\<not> isFinite q \<Longrightarrow> q * Fin 0 = NaN"
  by (cases q) simp_all

section \<open>Facts about bodies\<close>

lemma accumulatedForce_foldl:
  "accumulatedForce (foldl applyForce b fs) = foldl add (accumulatedForce b) fs"
  by (induction fs arbitrary: b) (simp_all add: applyForce_def)

lemma velocity_foldl: "velocity (foldl applyForce b fs) = velocity b"
  by (induction fs arbitrary: b) (simp_all add: applyForce_def)

lemma mass_foldl: "mass (foldl applyForce b fs) = mass b"
  by (induction fs arbitrary: b) (simp_all add: applyForce_def)

section \<open>Unfolding the loops\<close>

lemma innerLoop_done: "length ms \<le> j \<Longrightarrow> innerLoop i j ms = ms"
  by (subst innerLoop.simps) simp

lemma innerLoop_step:
  "j < length ms \<Longrightarrow> innerLoop i j ms = innerLoop i (Suc j) (resolveAt i j ms)"
  by (subst innerLoop.simps) simp

lemma outerLoop_done: "length ms \<le> i \<Longrightarrow> outerLoop i ms = ms"
  by (subst outerLoop.simps) simp

lemma outerLoop_step:
  "i < length ms \<Longrightarrow>
   outerLoop i ms =
     outerLoop (Suc i)
       (case collider (ms ! i) of None \<Rightarrow> ms | Some ca \<Rightarrow> innerLoop i (Suc i) ms)"
  by (subst outerLoop.simps) (simp split: option.splits)

lemma outerLoop_last: "length ms = Suc i \<Longrightarrow> outerLoop i ms = ms"
  by (cases "collider (ms ! i)") (simp_all add: outerLoop_step outerLoop_done innerLoop_done)

lemma resolvePair_no_collider: "collider A = None \<Longrightarrow> resolvePair A B = (A, B)"
  by (simp add: resolvePair_def)

text \<open>On a list of two meshes the second loop resolves the one pair.\<close>

lemma collisionPhase_pair:
  "collisionPhase [A, B] = (case resolvePair A B of (A', B') \<Rightarrow> [A', B'])"
proof (cases "collider A")
  case None
  then show ?thesis
    by (simp add: collisionPhase_def outerLoop_step [of 0] outerLoop_last resolvePair_no_collider)
next
  case (Some ca)
  obtain A' B' where r: "resolvePair A B = (A', B')"
    by (cases "resolvePair A B")
  have "innerLoop 0 (Suc 0) [A, B] = [A', B']"
    using r by (simp add: innerLoop_step innerLoop_done resolveAt_def)
  then show ?thesis
    using Some r by (simp add: collisionPhase_def outerLoop_step [of 0] outerLoop_last)
qed

lemma integrateMesh_nonpositive: "dt \<le> Fin 0 \<Longrightarrow> integrateMesh dt m = m"
  by (cases "body m") (simp_all add: integrateMesh_def integrate_def)

lemma integratePhase_nonpositive: "dt \<le> Fin 0 \<Longrightarrow> integratePhase ms dt = ms"
  by (induction ms) (simp_all add: integratePhase_def integrateMesh_nonpositive)

section \<open>Evaluating a pair\<close>

lemma sqrt_9_4: "sqrt (9 / 4) = 3 / 2"
  by (rule real_sqrt_unique) (simp_all add: power2_eq_square)

lemmas vec_defs = vec_def zeroVec_def add_def sub_def mulScalar_def length_vec_def
  minus_number_def

lemmas pair_defs = resolvePair_def dist_of_def worldCenter_def minDist_def delta_def
  penetration_def normal_def correction_def orElse_def resolveVelocity_def
  relAlongNormal_def invMass_def restitution_def Let_def

lemmas ball_defs = ball_def attachPhysics_def newBody_def

section \<open>Facts about an overlapping pair\<close>

text \<open>The two positions after the pair step, whether or not the meshes have bodies.\<close>

lemma resolvePair_positions:
  assumes "collider A = Some ca" and "collider B = Some cb"
    and "dist_of A ca B cb < minDist ca cb"
  shows "position (fst (resolvePair A B)) =
           add (position A) (mulScalar (correction A ca B cb) (Fin (- 1)))"
    and "position (snd (resolvePair A B)) = add (position B) (correction A ca B cb)"
  using assms by (simp_all add: resolvePair_def Let_def split: option.splits prod.splits)

section \<open>Facts about what the step leaves alone\<close>

lemma map_update_same: "f y = f (xs ! k) \<Longrightarrow> map f (xs[k := y]) = map f xs"
  by (cases "k < length xs") (simp_all add: list_update_beyond map_update list_update_same_conv)

lemma resolveVelocity_mass:
  "mass (fst (resolveVelocity ba bb n)) = mass ba \<and> mass (snd (resolveVelocity ba bb n)) = mass bb"
  by (simp add: resolveVelocity_def Let_def)

lemma resolvePair_collider:
  "collider (fst (resolvePair A B)) = collider A \<and> collider (snd (resolvePair A B)) = collider B"
  by (simp add: resolvePair_def Let_def split: option.splits prod.splits)

lemma resolvePair_bodyMass:
  "bodyMass (fst (resolvePair A B)) = bodyMass A \<and> bodyMass (snd (resolvePair A B)) = bodyMass B"
proof -
  have "mass ba' = mass ba \<and> mass bb' = mass bb"
    if "resolveVelocity ba bb n = (ba', bb')" for ba bb n ba' bb'
    using resolveVelocity_mass [of ba bb n] that by simp
  then show ?thesis
    by (auto simp: resolvePair_def bodyMass_def Let_def split: option.splits prod.splits)
qed

text \<open>A function of a mesh that the pair step keeps is kept by the loops.\<close>

lemma resolveAt_frame:
  assumes "\<And>A B. f (fst (resolvePair A B)) = f A \<and> f (snd (resolvePair A B)) = f B"
  shows "map f (resolveAt i j ms) = map f ms"
proof -
  obtain A' B' where r: "resolvePair (ms ! i) (ms ! j) = (A', B')"
    by (cases "resolvePair (ms ! i) (ms ! j)")
  have a: "f A' = f (ms ! i)" and b: "f B' = f (ms ! j)"
    using assms [of "ms ! i" "ms ! j"] r by simp_all
  have one: "map f (ms[i := A']) = map f ms"
    using a by (rule map_update_same)
  have "f B' = f (ms[i := A'] ! j)"
  proof (cases "i = j \<and> i < length ms")
    case True
    then show ?thesis using a b by simp
  next
    case False
    then have "ms[i := A'] ! j = ms ! j"
      by (cases "i = j") (simp_all add: list_update_beyond)
    then show ?thesis using b by simp
  qed
  then have "map f ((ms[i := A'])[j := B']) = map f (ms[i := A'])"
    by (rule map_update_same)
  then show ?thesis
    using one r by (simp add: resolveAt_def)
qed

lemma innerLoop_frame:
  assumes "\<And>A B. f (fst (resolvePair A B)) = f A \<and> f (snd (resolvePair A B)) = f B"
  shows "map f (innerLoop i j ms) = map f ms"
proof (induction i j ms rule: innerLoop.induct)
  case (1 i j ms)
  show ?case
  proof (cases "j < length ms")
    case True
    then show ?thesis
      using "1.IH" [OF True] resolveAt_frame [of f i j ms, OF assms]
      by (subst innerLoop.simps) simp
  next
    case False
    then show ?thesis by (subst innerLoop.simps) simp
  qed
qed

lemma outerLoop_frame:
  assumes "\<And>A B. f (fst (resolvePair A B)) = f A \<and> f (snd (resolvePair A B)) = f B"
  shows "map f (outerLoop i ms) = map f ms"
proof (induction i ms rule: outerLoop.induct)
  case (1 i ms)
  show ?case
  proof (cases "i < length ms")
    case True
    let ?ms' = "case collider (ms ! i) of None \<Rightarrow> ms | Some ca \<Rightarrow> innerLoop i (i + 1) ms"
    have step: "map f ?ms' = map f ms"
      using innerLoop_frame [of f, OF assms] by (simp split: option.splits)
    have "outerLoop i ms = outerLoop (i + 1) ?ms'"
      using True by (subst outerLoop.simps) simp
    then show ?thesis
      using "1.IH" [OF True] step by simp
  next
    case False
    then show ?thesis by (subst outerLoop.simps) simp
  qed
qed

lemma integrateMesh_frame:
  "collider (integrateMesh dt m) = collider m \<and> bodyMass (integrateMesh dt m) = bodyMass m"
  by (simp add: integrateMesh_def integrate_def bodyMass_def Let_def split: option.splits)

section \<open>Integration\<close>

text \<open>
  C2. For every body state, every position and every \<open>dt \<le> 0\<close>, \<open>integrate\<close> changes
  nothing: the velocity, the position and the pending accumulated force are as before
  the call.
\<close>

theorem integrate_nonpositive_dt_noop:
  "dt \<le> Fin 0 \<Longrightarrow> integrate b pos dt = (b, pos)"
  by (simp add: integrate_def)

theorem integrate_nonpositive_dt_noop_witness:
  "Fin (-1) \<le> Fin 0 \<and>
   integrate \<lparr>velocity = \<lparr>vx = Fin 1, vy = Fin 2, vz = Fin 3\<rparr>, mass = Fin 2,
              accumulatedForce = \<lparr>vx = Fin 4, vy = Fin 0, vz = Fin 0\<rparr>\<rparr>
     \<lparr>vx = Fin 5, vy = Fin 6, vz = Fin 7\<rparr> (Fin (-1))
   = (\<lparr>velocity = \<lparr>vx = Fin 1, vy = Fin 2, vz = Fin 3\<rparr>, mass = Fin 2,
       accumulatedForce = \<lparr>vx = Fin 4, vy = Fin 0, vz = Fin 0\<rparr>\<rparr>,
      \<lparr>vx = Fin 5, vy = Fin 6, vz = Fin 7\<rparr>)"
proof -
  have h: "Fin (-1) \<le> Fin 0" by simp
  show ?thesis
    using h integrate_nonpositive_dt_noop [OF h] by simp
qed

text \<open>
  C3, as the code has it. A fresh body of mass \<open>m > 0\<close> (zero velocity, no pending force)
  receives the forces \<open>fs\<close>, whose sum is \<open>F\<close>. One \<open>integrate\<close> with \<open>dt > 0\<close> leaves the
  velocity \<open>(F / m) * dt\<close>, the position advanced by that new velocity times \<open>dt\<close>, and no
  pending force. After that, applying the zero force and integrating again with a finite
  \<open>dt' > 0\<close> does not change the velocity.
\<close>

theorem integrate_force_from_rest:
  assumes "Fin 0 < m" and "Fin 0 < dt" and "Fin 0 < dt'" and "isFinite dt'"
    and "F = foldl add zeroVec fs"
    and "integrate (foldl applyForce (newBody m) fs) pos dt = (b1, p1)"
  shows "velocity b1 = \<lparr>vx = vx F / m * dt, vy = vy F / m * dt, vz = vz F / m * dt\<rparr>
         \<and> p1 = add pos (mulScalar (velocity b1) dt)
         \<and> accumulatedForce b1 = zeroVec
         \<and> velocity (fst (integrate (applyForce b1 zeroVec) p1 dt')) = velocity b1"
proof -
  let ?b0 = "foldl applyForce (newBody m) fs"
  have acc: "accumulatedForce ?b0 = F"
    by (simp add: accumulatedForce_foldl newBody_def assms(5))
  have vel: "velocity ?b0 = zeroVec"
    by (simp add: velocity_foldl newBody_def)
  have ms: "mass ?b0 = m"
    by (simp add: mass_foldl newBody_def)
  have dt: "\<not> dt \<le> Fin 0" and dt': "\<not> dt' \<le> Fin 0"
    using assms(2,3) by (simp_all add: pos_not_le_zero)
  have b1: "b1 = ?b0\<lparr>velocity := \<lparr>vx = vx F / m * dt, vy = vy F / m * dt, vz = vz F / m * dt\<rparr>,
                     accumulatedForce := zeroVec\<rparr>"
    and p1: "p1 = add pos (mulScalar \<lparr>vx = vx F / m * dt, vy = vy F / m * dt, vz = vz F / m * dt\<rparr> dt)"
    using assms(6) dt
    by (simp_all add: integrate_def Let_def acc vel ms zeroVec_def zero_plus add_def mulScalar_def)
  have again: "velocity (fst (integrate (applyForce b1 zeroVec) p1 dt')) = velocity b1"
    using dt' assms(1,4)
    by (simp add: integrate_def Let_def applyForce_def b1 ms add_def zeroVec_def
        zero_div_pos zero_times_finite plus_zero)
  show ?thesis
    using again by (simp add: b1 p1)
qed

theorem integrate_force_from_rest_witness:
  "Fin 0 < Fin 2 \<and> Fin 0 < Fin 0.5 \<and> Fin 0 < Fin 1 \<and> isFinite (Fin 1)
   \<and> vec 4 0 0 = foldl add zeroVec [vec 1 0 0, vec 3 0 0]
   \<and> integrate (foldl applyForce (newBody (Fin 2)) [vec 1 0 0, vec 3 0 0]) (vec 0 0 0) (Fin 0.5)
       = ((newBody (Fin 2))\<lparr>velocity := vec 1 0 0\<rparr>, vec 0.5 0 0)
   \<and> velocity (fst (integrate (applyForce ((newBody (Fin 2))\<lparr>velocity := vec 1 0 0\<rparr>) zeroVec)
        (vec 0.5 0 0) (Fin 1))) = vec 1 0 0"
proof -
  have a: "Fin 0 < Fin 2" and b: "Fin 0 < Fin 0.5" and c: "Fin 0 < Fin 1" and d: "isFinite (Fin 1)"
    by simp_all
  have e: "vec 4 0 0 = foldl add zeroVec [vec 1 0 0, vec 3 0 0]"
    by (simp add: vec_defs)
  have f: "integrate (foldl applyForce (newBody (Fin 2)) [vec 1 0 0, vec 3 0 0]) (vec 0 0 0) (Fin 0.5)
       = ((newBody (Fin 2))\<lparr>velocity := vec 1 0 0\<rparr>, vec 0.5 0 0)"
    by (simp add: integrate_def applyForce_def newBody_def Let_def vec_defs)
  have g: "velocity (fst (integrate (applyForce ((newBody (Fin 2))\<lparr>velocity := vec 1 0 0\<rparr>) zeroVec)
        (vec 0.5 0 0) (Fin 1))) = vec 1 0 0"
    using integrate_force_from_rest [OF a b c d e f, THEN conjunct2, THEN conjunct2, THEN conjunct2]
    by simp
  show ?thesis
    by (intro conjI) (rule a b c d e f g)+
qed

text \<open>
  As C3 is written, the second time step is any \<open>dt > 0\<close>. With \<open>dt = Infinity\<close> the
  acceleration \<open>0\<close> times \<open>dt\<close> is NaN, and the velocity \<open>(1,0,0)\<close> that the first step
  produced becomes NaN in every component.
\<close>

theorem integrate_again_infinite_dt:
  "Fin 0 < Fin 1 \<and> Fin 0 < PInf
   \<and> integrate (applyForce (newBody (Fin 1)) (vec 1 0 0)) (vec 0 0 0) (Fin 1)
       = ((newBody (Fin 1))\<lparr>velocity := vec 1 0 0\<rparr>, vec 1 0 0)
   \<and> velocity (fst (integrate (applyForce ((newBody (Fin 1))\<lparr>velocity := vec 1 0 0\<rparr>) zeroVec)
        (vec 1 0 0) PInf)) = \<lparr>vx = NaN, vy = NaN, vz = NaN\<rparr>"
  by (simp add: integrate_def applyForce_def newBody_def Let_def vec_defs)

section \<open>The two scenarios\<close>

text \<open>
  C1. Two meshes, each with a body of mass 1 and a sphere collider of radius 1: \<open>A\<close> at
  \<open>(0,0,0)\<close> with velocity zero and \<open>B\<close> at \<open>(1.5,0,0)\<close>. The collision pass, and with it a
  call of \<open>stepPhysics\<close> whose time step is 0 (the first loop then changes nothing), puts
  \<open>A\<close> at \<open>(-0.25,0,0)\<close> and \<open>B\<close> at \<open>(1.75,0,0)\<close>. When \<open>B\<close> is at rest too, both velocities
  stay zero; when \<open>B\<close> moves with \<open>(-1,0,0)\<close>, the velocities become \<open>(-0.75,0,0)\<close> for \<open>A\<close>
  and \<open>(-0.25,0,0)\<close> for \<open>B\<close>.
\<close>

theorem scenarios_one_and_two:
  "collisionPhase
     [ball (vec 0 0 0) (vec 0 0 0) (Fin 1) (Fin 1),
      ball (vec 1.5 0 0) (vec 0 0 0) (Fin 1) (Fin 1)]
   = [ball (vec (- 0.25) 0 0) (vec 0 0 0) (Fin 1) (Fin 1),
      ball (vec 1.75 0 0) (vec 0 0 0) (Fin 1) (Fin 1)]
   \<and> stepPhysics
     [ball (vec 0 0 0) (vec 0 0 0) (Fin 1) (Fin 1),
      ball (vec 1.5 0 0) (vec 0 0 0) (Fin 1) (Fin 1)] (Fin 0)
   = [ball (vec (- 0.25) 0 0) (vec 0 0 0) (Fin 1) (Fin 1),
      ball (vec 1.75 0 0) (vec 0 0 0) (Fin 1) (Fin 1)]
   \<and> collisionPhase
     [ball (vec 0 0 0) (vec 0 0 0) (Fin 1) (Fin 1),
      ball (vec 1.5 0 0) (vec (- 1) 0 0) (Fin 1) (Fin 1)]
   = [ball (vec (- 0.25) 0 0) (vec (- 0.75) 0 0) (Fin 1) (Fin 1),
      ball (vec 1.75 0 0) (vec (- 0.25) 0 0) (Fin 1) (Fin 1)]
   \<and> stepPhysics
     [ball (vec 0 0 0) (vec 0 0 0) (Fin 1) (Fin 1),
      ball (vec 1.5 0 0) (vec (- 1) 0 0) (Fin 1) (Fin 1)] (Fin 0)
   = [ball (vec (- 0.25) 0 0) (vec (- 0.75) 0 0) (Fin 1) (Fin 1),
      ball (vec 1.75 0 0) (vec (- 0.25) 0 0) (Fin 1) (Fin 1)]"
proof -
  have one:
    "resolvePair (ball (vec 0 0 0) (vec 0 0 0) (Fin 1) (Fin 1))
       (ball (vec 1.5 0 0) (vec 0 0 0) (Fin 1) (Fin 1))
     = (ball (vec (- 0.25) 0 0) (vec 0 0 0) (Fin 1) (Fin 1),
        ball (vec 1.75 0 0) (vec 0 0 0) (Fin 1) (Fin 1))"
    by (simp add: ball_defs pair_defs vec_defs sqrt_9_4)
  have two:
    "resolvePair (ball (vec 0 0 0) (vec 0 0 0) (Fin 1) (Fin 1))
       (ball (vec 1.5 0 0) (vec (- 1) 0 0) (Fin 1) (Fin 1))
     = (ball (vec (- 0.25) 0 0) (vec (- 0.75) 0 0) (Fin 1) (Fin 1),
        ball (vec 1.75 0 0) (vec (- 0.25) 0 0) (Fin 1) (Fin 1))"
    by (simp add: ball_defs pair_defs vec_defs sqrt_9_4)
  have still: "integratePhase ms (Fin 0) = ms" for ms
    by (rule integratePhase_nonpositive) simp
  show ?thesis
    by (simp only: stepPhysics_def still collisionPhase_pair one two prod.case simp_thms)
qed

section \<open>Pairs that do not overlap, pairs that separate\<close>

text \<open>
  C4. Two meshes with colliders whose centers are at a distance \<open>dist \<ge> radiusA + radiusB\<close>:
  the inner loop's body leaves both meshes as they are, positions and velocities included,
  and so does the collision phase on the two of them.
\<close>

theorem no_overlap_unchanged:
  assumes "collider A = Some ca" and "collider B = Some cb"
    and "minDist ca cb \<le> dist_of A ca B cb"
  shows "resolvePair A B = (A, B) \<and> collisionPhase [A, B] = [A, B]"
proof -
  have "\<not> dist_of A ca B cb < minDist ca cb"
    using assms(3) by (rule number_le_not_less)
  then have "resolvePair A B = (A, B)"
    using assms(1,2) by (simp add: resolvePair_def)
  then show ?thesis
    by (simp add: collisionPhase_pair)
qed

theorem no_overlap_unchanged_witness:
  "collider (ball (vec 0 0 0) (vec 1 0 0) (Fin 1) (Fin 1)) = Some \<lparr>radius = Fin 1, offset = zeroVec\<rparr>
   \<and> collider (ball (vec 3 0 0) (vec (- 1) 0 0) (Fin 1) (Fin 1)) = Some \<lparr>radius = Fin 1, offset = zeroVec\<rparr>
   \<and> minDist \<lparr>radius = Fin 1, offset = zeroVec\<rparr> \<lparr>radius = Fin 1, offset = zeroVec\<rparr>
       \<le> dist_of (ball (vec 0 0 0) (vec 1 0 0) (Fin 1) (Fin 1)) \<lparr>radius = Fin 1, offset = zeroVec\<rparr>
            (ball (vec 3 0 0) (vec (- 1) 0 0) (Fin 1) (Fin 1)) \<lparr>radius = Fin 1, offset = zeroVec\<rparr>
   \<and> collisionPhase
        [ball (vec 0 0 0) (vec 1 0 0) (Fin 1) (Fin 1), ball (vec 3 0 0) (vec (- 1) 0 0) (Fin 1) (Fin 1)]
       = [ball (vec 0 0 0) (vec 1 0 0) (Fin 1) (Fin 1), ball (vec 3 0 0) (vec (- 1) 0 0) (Fin 1) (Fin 1)]"
proof -
  have a: "collider (ball (vec 0 0 0) (vec 1 0 0) (Fin 1) (Fin 1)) = Some \<lparr>radius = Fin 1, offset = zeroVec\<rparr>"
    by (simp add: ball_defs)
  have b: "collider (ball (vec 3 0 0) (vec (- 1) 0 0) (Fin 1) (Fin 1)) = Some \<lparr>radius = Fin 1, offset = zeroVec\<rparr>"
    by (simp add: ball_defs)
  have "sqrt 9 = 3"
    by (rule real_sqrt_unique) simp_all
  then have d: "minDist \<lparr>radius = Fin 1, offset = zeroVec\<rparr> \<lparr>radius = Fin 1, offset = zeroVec\<rparr>
       \<le> dist_of (ball (vec 0 0 0) (vec 1 0 0) (Fin 1) (Fin 1)) \<lparr>radius = Fin 1, offset = zeroVec\<rparr>
            (ball (vec 3 0 0) (vec (- 1) 0 0) (Fin 1) (Fin 1)) \<lparr>radius = Fin 1, offset = zeroVec\<rparr>"
    by (simp add: ball_defs pair_defs vec_defs)
  show ?thesis
    using a b d no_overlap_unchanged [OF a b d] by simp
qed

text \<open>
  C6. An overlapping pair whose meshes both have bodies and whose relative velocity along
  the contact normal is strictly positive: both positions are corrected, and both bodies
  (their velocities with them) are exactly as before.
\<close>

theorem separating_pair_keeps_velocities:
  assumes "collider A = Some ca" and "collider B = Some cb"
    and "body A = Some ba" and "body B = Some bb"
    and "dist_of A ca B cb < minDist ca cb"
    and "Fin 0 < relAlongNormal ba bb (normal A ca B cb)"
  shows "resolvePair A B =
           (A\<lparr>position := add (position A) (mulScalar (correction A ca B cb) (Fin (- 1)))\<rparr>,
            B\<lparr>position := add (position B) (correction A ca B cb)\<rparr>)
         \<and> collisionPhase [A, B] =
           [A\<lparr>position := add (position A) (mulScalar (correction A ca B cb) (Fin (- 1)))\<rparr>,
            B\<lparr>position := add (position B) (correction A ca B cb)\<rparr>]"
proof -
  have v: "resolveVelocity ba bb (normal A ca B cb) = (ba, bb)"
    using assms(6) by (simp add: resolveVelocity_def)
  have "resolvePair A B =
           (A\<lparr>position := add (position A) (mulScalar (correction A ca B cb) (Fin (- 1)))\<rparr>,
            B\<lparr>position := add (position B) (correction A ca B cb)\<rparr>)"
    using assms(1-5) v by (simp add: resolvePair_def)
  then show ?thesis
    by (simp add: collisionPhase_pair)
qed

theorem separating_pair_keeps_velocities_witness:
  "collider (ball (vec 0 0 0) (vec (- 1) 0 0) (Fin 1) (Fin 1)) = Some \<lparr>radius = Fin 1, offset = zeroVec\<rparr>
   \<and> collider (ball (vec 1.5 0 0) (vec 1 0 0) (Fin 1) (Fin 1)) = Some \<lparr>radius = Fin 1, offset = zeroVec\<rparr>
   \<and> body (ball (vec 0 0 0) (vec (- 1) 0 0) (Fin 1) (Fin 1)) = Some ((newBody (Fin 1))\<lparr>velocity := vec (- 1) 0 0\<rparr>)
   \<and> body (ball (vec 1.5 0 0) (vec 1 0 0) (Fin 1) (Fin 1)) = Some ((newBody (Fin 1))\<lparr>velocity := vec 1 0 0\<rparr>)
   \<and> dist_of (ball (vec 0 0 0) (vec (- 1) 0 0) (Fin 1) (Fin 1)) \<lparr>radius = Fin 1, offset = zeroVec\<rparr>
         (ball (vec 1.5 0 0) (vec 1 0 0) (Fin 1) (Fin 1)) \<lparr>radius = Fin 1, offset = zeroVec\<rparr>
       < minDist \<lparr>radius = Fin 1, offset = zeroVec\<rparr> \<lparr>radius = Fin 1, offset = zeroVec\<rparr>
   \<and> Fin 0 < relAlongNormal ((newBody (Fin 1))\<lparr>velocity := vec (- 1) 0 0\<rparr>)
         ((newBody (Fin 1))\<lparr>velocity := vec 1 0 0\<rparr>)
         (normal (ball (vec 0 0 0) (vec (- 1) 0 0) (Fin 1) (Fin 1)) \<lparr>radius = Fin 1, offset = zeroVec\<rparr>
            (ball (vec 1.5 0 0) (vec 1 0 0) (Fin 1) (Fin 1)) \<lparr>radius = Fin 1, offset = zeroVec\<rparr>)
   \<and> collisionPhase
        [ball (vec 0 0 0) (vec (- 1) 0 0) (Fin 1) (Fin 1), ball (vec 1.5 0 0) (vec 1 0 0) (Fin 1) (Fin 1)]
       = [ball (vec (- 0.25) 0 0) (vec (- 1) 0 0) (Fin 1) (Fin 1),
          ball (vec 1.75 0 0) (vec 1 0 0) (Fin 1) (Fin 1)]"
proof -
  have a: "collider (ball (vec 0 0 0) (vec (- 1) 0 0) (Fin 1) (Fin 1)) = Some \<lparr>radius = Fin 1, offset = zeroVec\<rparr>"
    by (simp add: ball_defs)
  have b: "collider (ball (vec 1.5 0 0) (vec 1 0 0) (Fin 1) (Fin 1)) = Some \<lparr>radius = Fin 1, offset = zeroVec\<rparr>"
    by (simp add: ball_defs)
  have c: "body (ball (vec 0 0 0) (vec (- 1) 0 0) (Fin 1) (Fin 1)) = Some ((newBody (Fin 1))\<lparr>velocity := vec (- 1) 0 0\<rparr>)"
    by (simp add: ball_defs)
  have d: "body (ball (vec 1.5 0 0) (vec 1 0 0) (Fin 1) (Fin 1)) = Some ((newBody (Fin 1))\<lparr>velocity := vec 1 0 0\<rparr>)"
    by (simp add: ball_defs)
  have e: "dist_of (ball (vec 0 0 0) (vec (- 1) 0 0) (Fin 1) (Fin 1)) \<lparr>radius = Fin 1, offset = zeroVec\<rparr>
         (ball (vec 1.5 0 0) (vec 1 0 0) (Fin 1) (Fin 1)) \<lparr>radius = Fin 1, offset = zeroVec\<rparr>
       < minDist \<lparr>radius = Fin 1, offset = zeroVec\<rparr> \<lparr>radius = Fin 1, offset = zeroVec\<rparr>"
    by (simp add: ball_defs pair_defs vec_defs sqrt_9_4)
  have f: "Fin 0 < relAlongNormal ((newBody (Fin 1))\<lparr>velocity := vec (- 1) 0 0\<rparr>)
         ((newBody (Fin 1))\<lparr>velocity := vec 1 0 0\<rparr>)
         (normal (ball (vec 0 0 0) (vec (- 1) 0 0) (Fin 1) (Fin 1)) \<lparr>radius = Fin 1, offset = zeroVec\<rparr>
            (ball (vec 1.5 0 0) (vec 1 0 0) (Fin 1) (Fin 1)) \<lparr>radius = Fin 1, offset = zeroVec\<rparr>)"
    by (simp add: ball_defs pair_defs vec_defs sqrt_9_4)
  have g: "correction (ball (vec 0 0 0) (vec (- 1) 0 0) (Fin 1) (Fin 1)) \<lparr>radius = Fin 1, offset = zeroVec\<rparr>
            (ball (vec 1.5 0 0) (vec 1 0 0) (Fin 1) (Fin 1)) \<lparr>radius = Fin 1, offset = zeroVec\<rparr>
           = vec 0.25 0 0"
    by (simp add: ball_defs pair_defs vec_defs sqrt_9_4)
  have h: "collisionPhase
        [ball (vec 0 0 0) (vec (- 1) 0 0) (Fin 1) (Fin 1), ball (vec 1.5 0 0) (vec 1 0 0) (Fin 1) (Fin 1)]
       = [ball (vec (- 0.25) 0 0) (vec (- 1) 0 0) (Fin 1) (Fin 1),
          ball (vec 1.75 0 0) (vec 1 0 0) (Fin 1) (Fin 1)]"
    using separating_pair_keeps_velocities [OF a b c d e f, unfolded g]
    by (simp add: ball_defs vec_defs)
  show ?thesis
    by (intro conjI) (rule a b c d e f h)+
qed


section \<open>The normal of an overlapping pair\<close>

text \<open>
  C8, as written: for every overlapping pair the divisor of the normal is never the
  fallback 1 of \<^verbatim>\<open>dist || 1\<close>. Two unit spheres with the same center overlap, their
  \<^verbatim>\<open>dist\<close> is 0 and falsy, the divisor is the fallback 1, and the normal is the nudged
  \<^verbatim>\<open>delta\<close> itself; scaling by \<open>1 / dist\<close> would give an infinity in each component.
\<close>

theorem coincident_centers_use_fallback:
  "dist_of (ball (vec 0 0 0) (vec 0 0 0) (Fin 1) (Fin 1)) \<lparr>radius = Fin 1, offset = zeroVec\<rparr>
     (ball (vec 0 0 0) (vec 0 0 0) (Fin 1) (Fin 1)) \<lparr>radius = Fin 1, offset = zeroVec\<rparr> = Fin 0
   \<and> dist_of (ball (vec 0 0 0) (vec 0 0 0) (Fin 1) (Fin 1)) \<lparr>radius = Fin 1, offset = zeroVec\<rparr>
       (ball (vec 0 0 0) (vec 0 0 0) (Fin 1) (Fin 1)) \<lparr>radius = Fin 1, offset = zeroVec\<rparr>
     < minDist \<lparr>radius = Fin 1, offset = zeroVec\<rparr> \<lparr>radius = Fin 1, offset = zeroVec\<rparr>
   \<and> \<not> truthy (Fin 0)
   \<and> orElse (Fin 0) (Fin 1) = Fin 1
   \<and> normal (ball (vec 0 0 0) (vec 0 0 0) (Fin 1) (Fin 1)) \<lparr>radius = Fin 1, offset = zeroVec\<rparr>
       (ball (vec 0 0 0) (vec 0 0 0) (Fin 1) (Fin 1)) \<lparr>radius = Fin 1, offset = zeroVec\<rparr>
     = vec 0.001 0.001 0.001
   \<and> mulScalar
       (delta (ball (vec 0 0 0) (vec 0 0 0) (Fin 1) (Fin 1)) \<lparr>radius = Fin 1, offset = zeroVec\<rparr>
          (ball (vec 0 0 0) (vec 0 0 0) (Fin 1) (Fin 1)) \<lparr>radius = Fin 1, offset = zeroVec\<rparr>)
       (Fin 1 / Fin 0)
     = \<lparr>vx = PInf, vy = PInf, vz = PInf\<rparr>"
  by (simp add: ball_defs pair_defs vec_defs)

text \<open>
  C8, as the code has it. \<^verbatim>\<open>dist\<close> is computed once, before the nudge, and the test
  \<^verbatim>\<open>dist || 1\<close> reads that computed value. For an overlapping pair, the divisor is the
  fallback 1 exactly when the computed \<^verbatim>\<open>dist\<close> is 0, and the normal is then the nudged
  \<^verbatim>\<open>delta\<close>, \<open>(0.001, 0.001, 0.001)\<close>; otherwise the computed \<^verbatim>\<open>dist\<close> is truthy, the
  divisor is \<^verbatim>\<open>dist\<close>, and the normal is the difference of the centers scaled by
  \<open>1 / dist\<close>. The statement is on the value of \<^verbatim>\<open>dist\<close>, whatever centers produce it.
\<close>

theorem normal_divisor:
  assumes "dist_of A ca B cb < minDist ca cb"
  shows "(dist_of A ca B cb = Fin 0 \<longrightarrow>
            orElse (dist_of A ca B cb) (Fin 1) = Fin 1
            \<and> normal A ca B cb = vec 0.001 0.001 0.001)
         \<and> (dist_of A ca B cb \<noteq> Fin 0 \<longrightarrow>
            truthy (dist_of A ca B cb)
            \<and> orElse (dist_of A ca B cb) (Fin 1) = dist_of A ca B cb
            \<and> normal A ca B cb =
                mulScalar (sub (worldCenter B cb) (worldCenter A ca)) (Fin 1 / dist_of A ca B cb))"
proof -
  have n: "dist_of A ca B cb \<noteq> NaN"
    using assms by (rule less_not_NaN)
  show ?thesis
    using n
    by (simp add: normal_def delta_def orElse_def strictEq_zero truthy_iff mulScalar_def vec_def)
qed

theorem normal_divisor_witness:
  "dist_of (ball (vec 0 0 0) (vec 0 0 0) (Fin 1) (Fin 1)) \<lparr>radius = Fin 1, offset = zeroVec\<rparr>
       (ball (vec 0 0 0) (vec 0 0 0) (Fin 1) (Fin 1)) \<lparr>radius = Fin 1, offset = zeroVec\<rparr>
     < minDist \<lparr>radius = Fin 1, offset = zeroVec\<rparr> \<lparr>radius = Fin 1, offset = zeroVec\<rparr>
   \<and> dist_of (ball (vec 0 0 0) (vec 0 0 0) (Fin 1) (Fin 1)) \<lparr>radius = Fin 1, offset = zeroVec\<rparr>
       (ball (vec 0 0 0) (vec 0 0 0) (Fin 1) (Fin 1)) \<lparr>radius = Fin 1, offset = zeroVec\<rparr> = Fin 0
   \<and> normal (ball (vec 0 0 0) (vec 0 0 0) (Fin 1) (Fin 1)) \<lparr>radius = Fin 1, offset = zeroVec\<rparr>
       (ball (vec 0 0 0) (vec 0 0 0) (Fin 1) (Fin 1)) \<lparr>radius = Fin 1, offset = zeroVec\<rparr>
     = vec 0.001 0.001 0.001
   \<and> dist_of (ball (vec 0 0 0) (vec 0 0 0) (Fin 1) (Fin 1)) \<lparr>radius = Fin 1, offset = zeroVec\<rparr>
       (ball (vec 1.5 0 0) (vec 0 0 0) (Fin 1) (Fin 1)) \<lparr>radius = Fin 1, offset = zeroVec\<rparr>
     < minDist \<lparr>radius = Fin 1, offset = zeroVec\<rparr> \<lparr>radius = Fin 1, offset = zeroVec\<rparr>
   \<and> dist_of (ball (vec 0 0 0) (vec 0 0 0) (Fin 1) (Fin 1)) \<lparr>radius = Fin 1, offset = zeroVec\<rparr>
       (ball (vec 1.5 0 0) (vec 0 0 0) (Fin 1) (Fin 1)) \<lparr>radius = Fin 1, offset = zeroVec\<rparr> = Fin 1.5
   \<and> Fin 1.5 \<noteq> Fin 0
   \<and> normal (ball (vec 0 0 0) (vec 0 0 0) (Fin 1) (Fin 1)) \<lparr>radius = Fin 1, offset = zeroVec\<rparr>
       (ball (vec 1.5 0 0) (vec 0 0 0) (Fin 1) (Fin 1)) \<lparr>radius = Fin 1, offset = zeroVec\<rparr>
     = vec 1 0 0"
proof -
  let ?c = "\<lparr>radius = Fin 1, offset = zeroVec\<rparr>"
  let ?A = "ball (vec 0 0 0) (vec 0 0 0) (Fin 1) (Fin 1)"
  let ?B = "ball (vec 1.5 0 0) (vec 0 0 0) (Fin 1) (Fin 1)"
  have o1: "dist_of ?A ?c ?A ?c < minDist ?c ?c" and z1: "dist_of ?A ?c ?A ?c = Fin 0"
    by (simp_all add: ball_defs pair_defs vec_defs)
  have o2: "dist_of ?A ?c ?B ?c < minDist ?c ?c" and z2: "dist_of ?A ?c ?B ?c = Fin 1.5"
    and z3: "Fin 1.5 \<noteq> Fin 0"
    by (simp_all add: ball_defs pair_defs vec_defs sqrt_9_4)
  have n1: "normal ?A ?c ?A ?c = vec 0.001 0.001 0.001"
    using normal_divisor [OF o1] z1 by simp
  have "normal ?A ?c ?B ?c = mulScalar (sub (worldCenter ?B ?c) (worldCenter ?A ?c)) (Fin 1 / Fin 1.5)"
    using normal_divisor [OF o2] z2 z3 by simp
  then have n2: "normal ?A ?c ?B ?c = vec 1 0 0"
    by (simp add: worldCenter_def ball_defs vec_defs)
  show ?thesis
    by (intro conjI) (rule o1 z1 n1 o2 z2 z3 n2)+
qed

section \<open>Two immovable bodies\<close>

text \<open>
  Whenever the impulse is computed for two bodies whose masses are not above 0, both
  inverse masses are 0, the impulse scalar is a quotient by 0, and every component of
  both velocities becomes NaN.
\<close>

lemma resolveVelocity_both_immovable:
  assumes "\<not> Fin 0 < relAlongNormal ba bb n" and "\<not> Fin 0 < mass ba" and "\<not> Fin 0 < mass bb"
  shows "resolveVelocity ba bb n =
           (ba\<lparr>velocity := \<lparr>vx = NaN, vy = NaN, vz = NaN\<rparr>\<rparr>,
            bb\<lparr>velocity := \<lparr>vx = NaN, vy = NaN, vz = NaN\<rparr>\<rparr>)"
proof -
  define j where "j = ((- (Fin 1 + restitution)) * relAlongNormal ba bb n) / Fin 0"
  have nf: "\<not> isFinite j"
    unfolding j_def by (rule div_zero_not_finite)
  have z: "a * j * Fin 0 = NaN" for a
    by (rule not_finite_times_zero) (rule times_not_finite [OF nf])
  show ?thesis
    using assms
    by (simp add: resolveVelocity_def invMass_def Let_def mulScalar_def sub_def add_def
        j_def [symmetric] z minus_NaN plus_NaN)
qed

text \<open>
  C7 at a concrete pair: the geometry of the second scenario with both masses 0. The
  positions are corrected as before; both velocities are NaN in every component after
  the collision pass, and after \<open>stepPhysics\<close> with the time step 0.
\<close>

theorem both_masses_zero_velocities_NaN:
  "collisionPhase
     [ball (vec 0 0 0) (vec 0 0 0) (Fin 0) (Fin 1),
      ball (vec 1.5 0 0) (vec (- 1) 0 0) (Fin 0) (Fin 1)]
   = [ball (vec (- 0.25) 0 0) \<lparr>vx = NaN, vy = NaN, vz = NaN\<rparr> (Fin 0) (Fin 1),
      ball (vec 1.75 0 0) \<lparr>vx = NaN, vy = NaN, vz = NaN\<rparr> (Fin 0) (Fin 1)]
   \<and> stepPhysics
     [ball (vec 0 0 0) (vec 0 0 0) (Fin 0) (Fin 1),
      ball (vec 1.5 0 0) (vec (- 1) 0 0) (Fin 0) (Fin 1)] (Fin 0)
   = [ball (vec (- 0.25) 0 0) \<lparr>vx = NaN, vy = NaN, vz = NaN\<rparr> (Fin 0) (Fin 1),
      ball (vec 1.75 0 0) \<lparr>vx = NaN, vy = NaN, vz = NaN\<rparr> (Fin 0) (Fin 1)]"
proof -
  have pair:
    "resolvePair (ball (vec 0 0 0) (vec 0 0 0) (Fin 0) (Fin 1))
       (ball (vec 1.5 0 0) (vec (- 1) 0 0) (Fin 0) (Fin 1))
     = (ball (vec (- 0.25) 0 0) \<lparr>vx = NaN, vy = NaN, vz = NaN\<rparr> (Fin 0) (Fin 1),
        ball (vec 1.75 0 0) \<lparr>vx = NaN, vy = NaN, vz = NaN\<rparr> (Fin 0) (Fin 1))"
    by (simp add: ball_defs pair_defs vec_defs sqrt_9_4)
  have still: "integratePhase ms (Fin 0) = ms" for ms
    by (rule integratePhase_nonpositive) simp
  show ?thesis
    by (simp only: stepPhysics_def still collisionPhase_pair pair prod.case simp_thms)
qed


section \<open>Positional correction\<close>

text \<open>
  C5, as written, has every overlapping pair displaced by exactly half the penetration
  depth on each side. Two unit spheres with the same center have \<^verbatim>\<open>dist\<close> 0 and
  penetration 2, so half of it is 1, and each mesh moves by 0.001 on each axis, one
  towards the negative and one towards the positive side: a displacement shorter than
  0.002.
\<close>

theorem coincident_centers_displacement:
  "resolvePair (ball (vec 0 0 0) (vec 0 0 0) (Fin 1) (Fin 1))
     (ball (vec 0 0 0) (vec 0 0 0) (Fin 1) (Fin 1))
   = (ball (vec (- 0.001) (- 0.001) (- 0.001)) (vec 0 0 0) (Fin 1) (Fin 1),
      ball (vec 0.001 0.001 0.001) (vec 0 0 0) (Fin 1) (Fin 1))
   \<and> penetration (ball (vec 0 0 0) (vec 0 0 0) (Fin 1) (Fin 1)) \<lparr>radius = Fin 1, offset = zeroVec\<rparr>
       (ball (vec 0 0 0) (vec 0 0 0) (Fin 1) (Fin 1)) \<lparr>radius = Fin 1, offset = zeroVec\<rparr> * Fin 0.5
     = Fin 1
   \<and> length_vec (sub (vec (- 0.001) (- 0.001) (- 0.001)) (vec 0 0 0)) < Fin 0.002
   \<and> length_vec (sub (vec 0.001 0.001 0.001) (vec 0 0 0)) < Fin 0.002
   \<and> Fin 0.002 < Fin 1"
proof -
  have a: "sqrt (3 / 1000000) < sqrt (4 / 1000000)"
    by (rule real_sqrt_less_mono) simp
  have b: "sqrt (4 / 1000000) = 2 / 1000"
    by (rule real_sqrt_unique) (simp_all add: power2_eq_square)
  have short: "sqrt (3 / 1000000) * 500 < 1"
    using a b by linarith
  show ?thesis
    by (simp add: ball_defs pair_defs vec_defs short)
qed

text \<open>
  C5, as the code has it. For every overlapping pair of meshes with colliders, with or
  without bodies and whatever their masses, the position of \<open>A\<close> becomes
  \<open>A.position + (normal * (penetration * 0.5)) * (-1)\<close> and the position of \<open>B\<close> becomes
  \<open>B.position + normal * (penetration * 0.5)\<close>, with
  \<open>penetration = radiusA + radiusB - dist\<close>. The normal is \<open>(0.001, 0.001, 0.001)\<close> when
  the computed \<^verbatim>\<open>dist\<close> is 0, and the difference of the centers times \<open>1 / dist\<close>
  otherwise. The statement is on the operations as the code applies them; it says nothing
  on the length of the normal. On a list of the two meshes the collision phase gives the
  result of the pair step.
\<close>

theorem positional_correction:
  assumes "collider A = Some ca" and "collider B = Some cb"
    and "dist_of A ca B cb < minDist ca cb"
  shows "position (fst (resolvePair A B)) =
           add (position A)
             (mulScalar (mulScalar (normal A ca B cb) (penetration A ca B cb * Fin 0.5)) (Fin (- 1)))
         \<and> position (snd (resolvePair A B)) =
           add (position B) (mulScalar (normal A ca B cb) (penetration A ca B cb * Fin 0.5))
         \<and> penetration A ca B cb = radius ca + radius cb - dist_of A ca B cb
         \<and> (dist_of A ca B cb = Fin 0 \<longrightarrow> normal A ca B cb = vec 0.001 0.001 0.001)
         \<and> (dist_of A ca B cb \<noteq> Fin 0 \<longrightarrow>
              normal A ca B cb =
                mulScalar (sub (worldCenter B cb) (worldCenter A ca)) (Fin 1 / dist_of A ca B cb))
         \<and> collisionPhase [A, B] = [fst (resolvePair A B), snd (resolvePair A B)]"
proof -
  note pos = resolvePair_positions [OF assms]
  have first: "position (fst (resolvePair A B)) =
           add (position A)
             (mulScalar (mulScalar (normal A ca B cb) (penetration A ca B cb * Fin 0.5)) (Fin (- 1)))"
    and second: "position (snd (resolvePair A B)) =
           add (position B) (mulScalar (normal A ca B cb) (penetration A ca B cb * Fin 0.5))"
    using pos by (simp_all add: correction_def)
  have pen: "penetration A ca B cb = radius ca + radius cb - dist_of A ca B cb"
    by (simp add: penetration_def minDist_def)
  have n: "dist_of A ca B cb \<noteq> NaN"
    using assms(3) by (rule less_not_NaN)
  have zero: "dist_of A ca B cb = Fin 0 \<longrightarrow> normal A ca B cb = vec 0.001 0.001 0.001"
    by (simp add: normal_def delta_def orElse_def mulScalar_def vec_def)
  have nonzero: "dist_of A ca B cb \<noteq> Fin 0 \<longrightarrow>
              normal A ca B cb =
                mulScalar (sub (worldCenter B cb) (worldCenter A ca)) (Fin 1 / dist_of A ca B cb)"
    using n by (simp add: normal_def delta_def orElse_def strictEq_zero truthy_iff)
  have phase: "collisionPhase [A, B] = [fst (resolvePair A B), snd (resolvePair A B)]"
    by (simp add: collisionPhase_pair split: prod.splits)
  show ?thesis
    by (intro conjI) (rule first second pen zero nonzero phase)+
qed

theorem positional_correction_witness:
  "collider (ball (vec 0 0 0) (vec 0 0 0) (Fin 1) (Fin 1)) = Some \<lparr>radius = Fin 1, offset = zeroVec\<rparr>
   \<and> collider (ball (vec 1.5 0 0) (vec 0 0 0) (Fin 1) (Fin 1)) = Some \<lparr>radius = Fin 1, offset = zeroVec\<rparr>
   \<and> dist_of (ball (vec 0 0 0) (vec 0 0 0) (Fin 1) (Fin 1)) \<lparr>radius = Fin 1, offset = zeroVec\<rparr>
       (ball (vec 1.5 0 0) (vec 0 0 0) (Fin 1) (Fin 1)) \<lparr>radius = Fin 1, offset = zeroVec\<rparr>
     < minDist \<lparr>radius = Fin 1, offset = zeroVec\<rparr> \<lparr>radius = Fin 1, offset = zeroVec\<rparr>
   \<and> dist_of (ball (vec 0 0 0) (vec 0 0 0) (Fin 1) (Fin 1)) \<lparr>radius = Fin 1, offset = zeroVec\<rparr>
       (ball (vec 1.5 0 0) (vec 0 0 0) (Fin 1) (Fin 1)) \<lparr>radius = Fin 1, offset = zeroVec\<rparr>
     \<noteq> Fin 0
   \<and> normal (ball (vec 0 0 0) (vec 0 0 0) (Fin 1) (Fin 1)) \<lparr>radius = Fin 1, offset = zeroVec\<rparr>
       (ball (vec 1.5 0 0) (vec 0 0 0) (Fin 1) (Fin 1)) \<lparr>radius = Fin 1, offset = zeroVec\<rparr>
     = vec 1 0 0
   \<and> position (fst (resolvePair (ball (vec 0 0 0) (vec 0 0 0) (Fin 1) (Fin 1))
         (ball (vec 1.5 0 0) (vec 0 0 0) (Fin 1) (Fin 1)))) = vec (- 0.25) 0 0
   \<and> position (snd (resolvePair (ball (vec 0 0 0) (vec 0 0 0) (Fin 1) (Fin 1))
         (ball (vec 1.5 0 0) (vec 0 0 0) (Fin 1) (Fin 1)))) = vec 1.75 0 0
   \<and> dist_of (ball (vec 0 0 0) (vec 0 0 0) (Fin 1) (Fin 1)) \<lparr>radius = Fin 1, offset = zeroVec\<rparr>
       (ball (vec 0 0 0) (vec 0 0 0) (Fin 1) (Fin 1)) \<lparr>radius = Fin 1, offset = zeroVec\<rparr>
     < minDist \<lparr>radius = Fin 1, offset = zeroVec\<rparr> \<lparr>radius = Fin 1, offset = zeroVec\<rparr>
   \<and> dist_of (ball (vec 0 0 0) (vec 0 0 0) (Fin 1) (Fin 1)) \<lparr>radius = Fin 1, offset = zeroVec\<rparr>
       (ball (vec 0 0 0) (vec 0 0 0) (Fin 1) (Fin 1)) \<lparr>radius = Fin 1, offset = zeroVec\<rparr>
     = Fin 0
   \<and> normal (ball (vec 0 0 0) (vec 0 0 0) (Fin 1) (Fin 1)) \<lparr>radius = Fin 1, offset = zeroVec\<rparr>
       (ball (vec 0 0 0) (vec 0 0 0) (Fin 1) (Fin 1)) \<lparr>radius = Fin 1, offset = zeroVec\<rparr>
     = vec 0.001 0.001 0.001"
proof -
  let ?c = "\<lparr>radius = Fin 1, offset = zeroVec\<rparr>"
  let ?A = "ball (vec 0 0 0) (vec 0 0 0) (Fin 1) (Fin 1)"
  let ?B = "ball (vec 1.5 0 0) (vec 0 0 0) (Fin 1) (Fin 1)"
  have a: "collider ?A = Some ?c" and b: "collider ?B = Some ?c"
    by (simp_all add: ball_defs)
  have o: "dist_of ?A ?c ?B ?c < minDist ?c ?c" and nz: "dist_of ?A ?c ?B ?c \<noteq> Fin 0"
    and d: "dist_of ?A ?c ?B ?c = Fin 1.5"
    by (simp_all add: ball_defs pair_defs vec_defs sqrt_9_4)
  have o': "dist_of ?A ?c ?A ?c < minDist ?c ?c" and z: "dist_of ?A ?c ?A ?c = Fin 0"
    by (simp_all add: ball_defs pair_defs vec_defs)
  have pen: "penetration ?A ?c ?B ?c * Fin 0.5 = Fin 0.25"
    by (simp add: ball_defs pair_defs vec_defs sqrt_9_4)
  have pa: "position ?A = vec 0 0 0" and pb: "position ?B = vec 1.5 0 0"
    by (simp_all add: ball_defs)
  note t = positional_correction [OF a b o]
  have "normal ?A ?c ?B ?c = mulScalar (sub (worldCenter ?B ?c) (worldCenter ?A ?c)) (Fin 1 / Fin 1.5)"
    using t [THEN conjunct2, THEN conjunct2, THEN conjunct2, THEN conjunct2, THEN conjunct1] nz
    unfolding d by blast
  then have nrm: "normal ?A ?c ?B ?c = vec 1 0 0"
    by (simp add: worldCenter_def ball_defs vec_defs)
  have p1: "position (fst (resolvePair ?A ?B)) = vec (- 0.25) 0 0"
    using t [THEN conjunct1, unfolded pen nrm pa] by (simp add: vec_defs)
  have p2: "position (snd (resolvePair ?A ?B)) = vec 1.75 0 0"
    using t [THEN conjunct2, THEN conjunct1, unfolded pen nrm pb] by (simp add: vec_defs)
  have n0: "normal ?A ?c ?A ?c = vec 0.001 0.001 0.001"
    using positional_correction [OF a a o', THEN conjunct2, THEN conjunct2, THEN conjunct2,
        THEN conjunct1] z
    by blast
  show ?thesis
    by (intro conjI) (rule a b o nz nrm p1 p2 o' z n0)+
qed

section \<open>The impulse\<close>




section \<open>What the step never writes\<close>

text \<open>
  C10. For every list of meshes and every time step, \<open>stepPhysics\<close> returns the same
  number of meshes, each with the collider it had (radius and offset) and, where it has a
  body, with the mass that body had. What can differ is within the positions, the
  velocities and the accumulated forces.
\<close>

theorem stepPhysics_keeps_masses_and_colliders:
  "length (stepPhysics meshes dt) = length meshes
   \<and> map collider (stepPhysics meshes dt) = map collider meshes
   \<and> map bodyMass (stepPhysics meshes dt) = map bodyMass meshes"
proof -
  have c: "map collider (stepPhysics meshes dt) = map collider meshes"
    unfolding stepPhysics_def collisionPhase_def integratePhase_def
    by (simp add: outerLoop_frame [of collider, OF resolvePair_collider] integrateMesh_frame)
  have m: "map bodyMass (stepPhysics meshes dt) = map bodyMass meshes"
    unfolding stepPhysics_def collisionPhase_def integratePhase_def
    by (simp add: outerLoop_frame [of bodyMass, OF resolvePair_bodyMass] integrateMesh_frame)
  have len: "length (stepPhysics meshes dt) = length meshes"
    using arg_cong [OF c, of length] by simp
  show ?thesis
    by (intro conjI) (rule len c m)+
qed


end
